theory Spec2Isabelle
  imports Complex_Main "HOL-Library.Word" "HOL-Library.Char_ord" "HOL-Library.List_Lexorder"
begin

section \<open>Python values and the plan executor (data\_analyst.py, app.py)\<close>

text \<open>
  Python identifiers that start with an underscore lose it here, since an Isabelle name
  cannot start with one: \<open>_parse_analysis_response\<close> is \<open>parse_analysis_response\<close>.
  A float is modelled by an exact real; where Python yields NaN the model has \<open>None\<close>.
\<close>

datatype pyval =
    PNone
  | PBool bool
  | PInt int
  | PFloat real
  | PStr string
  | PList "pyval list"
  | PDict "(string \<times> pyval) list"

text \<open>Python truthiness, as \<open>if x:\<close> tests it.\<close>

fun truthy :: "pyval \<Rightarrow> bool" where
  "truthy PNone = False"
| "truthy (PBool b) = b"
| "truthy (PInt i) = (i \<noteq> 0)"
| "truthy (PFloat r) = (r \<noteq> 0)"
| "truthy (PStr s) = (s \<noteq> [])"
| "truthy (PList xs) = (xs \<noteq> [])"
| "truthy (PDict kvs) = (kvs \<noteq> [])"

text \<open>\<open>d.get(k, default)\<close> and \<open>d[k] = v\<close> on a dict kept as an association list.\<close>

definition dict_get :: "(string \<times> pyval) list \<Rightarrow> string \<Rightarrow> pyval \<Rightarrow> pyval" where
  "dict_get d k dflt = (case map_of d k of Some v \<Rightarrow> v | None \<Rightarrow> dflt)"

fun dict_set :: "string \<Rightarrow> pyval \<Rightarrow> (string \<times> pyval) list \<Rightarrow> (string \<times> pyval) list" where
  "dict_set k v [] = [(k, v)]"
| "dict_set k v ((k', v') # d) = (if k' = k then (k, v) # d else (k', v') # dict_set k v d)"

text \<open>\<open>d.update(e)\<close>: every item of \<open>e\<close> is stored into \<open>d\<close>, in the order of \<open>e\<close>.\<close>

definition dict_update :: "(string \<times> pyval) list \<Rightarrow> (string \<times> pyval) list \<Rightarrow> (string \<times> pyval) list" where
  "dict_update d e = fold (\<lambda>(k, v). dict_set k v) e d"

subsection \<open>Parsing the collaborator's response\<close>

text \<open>
  \<open>re.search(r'\{.*\}', response_text, re.DOTALL)\<close>: the leftmost opening brace, and with
  the greedy \<open>.*\<close> under DOTALL everything up to the last closing brace after it. There is
  a match exactly when a closing brace follows the first opening brace.
\<close>

definition json_match :: "string \<Rightarrow> string option" where
  "json_match response_text =
     (let rest = dropWhile (\<lambda>c. c \<noteq> CHR ''{'') response_text
      in if CHR ''}'' \<in> set rest
         then Some (rev (dropWhile (\<lambda>c. c \<noteq> CHR ''}'') (rev rest)))
         else None)"

text \<open>
  What the pattern asks of a text, said by positions: an opening brace at some position
  and a closing brace at a later one.
\<close>

definition has_span :: "string \<Rightarrow> bool" where
  "has_span response_text =
     (\<exists>j \<in> {..<length response_text}. \<exists>i \<in> {..<j}.
        response_text ! i = CHR ''{'' \<and> response_text ! j = CHR ''}'')"

text \<open>The fallback dict that both fallback branches of the source build.\<close>

definition fallback_response :: "string \<Rightarrow> (string \<times> pyval) list" where
  "fallback_response response_text =
     [(''answers'', PList [PStr response_text]),
      (''insights'', PStr response_text),
      (''needs_visualization'', PBool False),
      (''requires_computation'', PBool False),
      (''success'', PBool True)]"

text \<open>
  \<open>_parse_analysis_response\<close>. The library function \<open>json.loads\<close> is the parameter
  \<open>loads\<close>: \<open>None\<close> is its \<open>JSONDecodeError\<close>. The text handed to it starts with an opening
  brace, so a successful parse is a JSON object, that is a dict.
\<close>

definition parse_analysis_response ::
  "(string \<Rightarrow> (string \<times> pyval) list option) \<Rightarrow> string \<Rightarrow> (string \<times> pyval) list" where
  "parse_analysis_response loads response_text =
     (case json_match response_text of
        Some json_str \<Rightarrow>
          (case loads json_str of
             Some parsed \<Rightarrow> parsed
           | None \<Rightarrow> fallback_response response_text)
      | None \<Rightarrow> fallback_response response_text)"

text \<open>
  What \<open>analyze\<close> does with the response text once the collaborator has answered: parse
  it, and run the computations only when the parsed result asks for them. The parameter
  \<open>compute\<close> stands for \<open>_perform_computations(\<cdot>, data_files)\<close> with its results as dict
  items.
\<close>

definition analyze_response ::
  "(string \<Rightarrow> (string \<times> pyval) list option) \<Rightarrow> (pyval \<Rightarrow> (string \<times> pyval) list) \<Rightarrow>
   string \<Rightarrow> (string \<times> pyval) list" where
  "analyze_response loads compute analysis_text =
     (let parsed_result = parse_analysis_response loads analysis_text
      in if truthy (dict_get parsed_result ''requires_computation'' (PBool False))
         then dict_update parsed_result
                (compute (dict_get parsed_result ''computations'' (PList [])))
         else parsed_result)"

text \<open>
  The chart step of \<open>analyze_data\<close> in app.py: a chart is generated only when the result
  asks for one, and stored only when the generator returned a non-empty string. The
  parameter \<open>generate_chart\<close> stands for \<open>chart_generator.generate_chart(data_files, \<cdot>)\<close>.
\<close>

definition attach_chart ::
  "(pyval \<Rightarrow> string option) \<Rightarrow> (string \<times> pyval) list \<Rightarrow> (string \<times> pyval) list" where
  "attach_chart generate_chart analysis_result =
     (if truthy (dict_get analysis_result ''needs_visualization'' (PBool False))
      then (case generate_chart (dict_get analysis_result ''chart_config'' (PDict [])) of
              Some chart_data \<Rightarrow>
                if chart_data \<noteq> [] then dict_set ''chart'' (PStr chart_data) analysis_result
                else analysis_result
            | None \<Rightarrow> analysis_result)
      else analysis_result)"

section \<open>Tables (pandas DataFrames)\<close>

text \<open>
  A DataFrame is its columns in order; a column (a Series) has a label, a dtype and its
  cells in row order. A missing entry (NaN, None, NaT) is \<open>NA\<close>. float64 and int64 values
  are exact reals: rounding is outside the model.
\<close>

datatype dtype = Object | Category | Float64 | Int64 | Datetime64

datatype cell = NA | Str string | Num real | Time int

record column =
  label :: string
  dtype :: dtype
  cells :: "cell list"

type_synonym table = "column list"

text \<open>\<open>df[c]\<close> reads the column labelled \<open>c\<close>; pandas raises \<open>KeyError\<close> when there is none.\<close>

definition getcol :: "table \<Rightarrow> string \<Rightarrow> column option" where
  "getcol df c = find (\<lambda>col. label col = c) df"

section \<open>The statistics dispatch (data\_analyst.py)\<close>

datatype exn = KeyError string | TypeError | ValueError | AttributeError

text \<open>
  What \<open>data_files\<close> holds per file name (file\_processor.py): a DataFrame, the text of a
  text file, or the value \<open>json.load\<close> returned (the image record is a dict as well).
\<close>

datatype payload = DataFrame table | Text string | Json pyval

text \<open>
  A requested computation, as the system prompt describes it: \<open>comp.get('type')\<close>,
  \<open>comp.get('data_source')\<close> (both \<open>None\<close> when absent) and \<open>comp.get('columns', [])\<close>.
\<close>

record comp =
  comp_type :: "string option"
  data_source :: "string option"
  columns :: "string list"

record regression_result =
  r_squared :: "real option"
  coefficient :: real
  intercept :: real

text \<open>A value stored in \<open>results\<close>: a float, the regression dict, or \<open>str(e)\<close> of an exception.\<close>

datatype rvalue = Correlation "real option" | Regression regression_result | Failed exn

text \<open>
  \<open>data[c]\<close> up to the point where a Series is in hand. A \<open>str\<close> cannot be indexed by a
  string; a dict raises \<open>KeyError\<close> for an absent key, and what it holds otherwise has
  neither \<open>corr\<close> nor \<open>values.reshape\<close>.
\<close>

fun getitem :: "payload \<Rightarrow> string \<Rightarrow> exn + cell list" where
  "getitem (DataFrame df) c =
     (case getcol df c of Some col \<Rightarrow> Inr (cells col) | None \<Rightarrow> Inl (KeyError c))"
| "getitem (Text s) c = Inl TypeError"
| "getitem (Json (PDict d)) c =
     (case map_of d c of Some v \<Rightarrow> Inl AttributeError | None \<Rightarrow> Inl (KeyError c))"
| "getitem (Json v) c = Inl TypeError"

definition error_key :: "comp \<Rightarrow> string" where
  "error_key c = ''computation_error_'' @ (case comp_type c of Some ty \<Rightarrow> ty | None \<Rightarrow> ''None'')"

text \<open>
  The body of the loop of \<open>_perform_computations\<close>: the key and the value that one
  computation stores in \<open>results\<close>, or \<open>None\<close> when it stores nothing (\<open>continue\<close>, or a
  type that no branch handles). An exception raised inside the \<open>try\<close> is stored under
  \<open>computation_error_<type>\<close>. The library calls \<open>Series.corr\<close> and
  \<open>LinearRegression().fit\<close> with \<open>score\<close>, \<open>coef_\<close>, \<open>intercept_\<close> are the parameters
  \<open>corr\<close> and \<open>linreg\<close>.
\<close>

definition computation_outcome ::
  "(cell list \<Rightarrow> cell list \<Rightarrow> exn + real option) \<Rightarrow>
   (cell list \<Rightarrow> cell list \<Rightarrow> exn + regression_result) \<Rightarrow>
   (string \<rightharpoonup> payload) \<Rightarrow> comp \<Rightarrow> (string \<times> rvalue) option" where
  "computation_outcome corr linreg data_files c =
     (case data_source c of
        None \<Rightarrow> None
      | Some src \<Rightarrow>
          (case data_files src of
             None \<Rightarrow> None
           | Some data \<Rightarrow>
               if comp_type c = Some ''correlation'' \<and> 2 \<le> length (columns c) then
                 (case getitem data (columns c ! 0) of
                    Inl e \<Rightarrow> Some (error_key c, Failed e)
                  | Inr a \<Rightarrow>
                      (case getitem data (columns c ! 1) of
                         Inl e \<Rightarrow> Some (error_key c, Failed e)
                       | Inr b \<Rightarrow>
                           (case corr a b of
                              Inl e \<Rightarrow> Some (error_key c, Failed e)
                            | Inr corr_value \<Rightarrow>
                                Some (''correlation_'' @ columns c ! 0 @ ''_'' @ columns c ! 1,
                                      Correlation corr_value))))
               else if comp_type c = Some ''regression'' \<and> 2 \<le> length (columns c) then
                 (case getitem data (columns c ! 0) of
                    Inl e \<Rightarrow> Some (error_key c, Failed e)
                  | Inr X \<Rightarrow>
                      (case getitem data (columns c ! 1) of
                         Inl e \<Rightarrow> Some (error_key c, Failed e)
                       | Inr y \<Rightarrow>
                           (case linreg X y of
                              Inl e \<Rightarrow> Some (error_key c, Failed e)
                            | Inr model \<Rightarrow>
                                Some (''regression_'' @ columns c ! 0 @ ''_'' @ columns c ! 1,
                                      Regression model))))
               else None))"

definition store_outcome ::
  "(string \<times> rvalue) option \<Rightarrow> (string \<rightharpoonup> rvalue) \<Rightarrow> (string \<rightharpoonup> rvalue)" where
  "store_outcome out results = (case out of None \<Rightarrow> results | Some (k, v) \<Rightarrow> results(k \<mapsto> v))"

definition perform_computations ::
  "(cell list \<Rightarrow> cell list \<Rightarrow> exn + real option) \<Rightarrow>
   (cell list \<Rightarrow> cell list \<Rightarrow> exn + regression_result) \<Rightarrow>
   comp list \<Rightarrow> (string \<rightharpoonup> payload) \<Rightarrow> (string \<rightharpoonup> rvalue)" where
  "perform_computations corr linreg computations data_files =
     fold (\<lambda>c. store_outcome (computation_outcome corr linreg data_files c)) computations Map.empty"

subsection \<open>Reference instances of the two library calls\<close>

text \<open>
  Exact-arithmetic readings of the two estimators, used where a concrete run is
  evaluated. \<open>numbers\<close> reads a column of numbers; it fails on a missing or non-numeric
  entry, as scikit-learn's input validation rejects NaN and text.
\<close>

fun numbers :: "cell list \<Rightarrow> real list option" where
  "numbers [] = Some []"
| "numbers (Num v # cs) = (case numbers cs of Some vs \<Rightarrow> Some (v # vs) | None \<Rightarrow> None)"
| "numbers (c # cs) = None"

definition mean :: "real list \<Rightarrow> real" where
  "mean xs = sum_list xs / real (length xs)"

text \<open>
  Ordinary least squares of \<open>y\<close> on the single predictor \<open>x\<close>, with the coefficient of
  determination as \<open>r2_score\<close> defines it (not defined for fewer than two samples; for a
  constant \<open>y\<close>, 1 when the fit is exact and 0 otherwise).
\<close>

definition least_squares :: "real list \<Rightarrow> real list \<Rightarrow> regression_result" where
  "least_squares xs ys =
     (let mx = mean xs; my = mean ys;
          sxx = (\<Sum>x\<leftarrow>xs. (x - mx)\<^sup>2);
          sxy = (\<Sum>(x, y)\<leftarrow>zip xs ys. (x - mx) * (y - my));
          b = (if sxx = 0 then 0 else sxy / sxx);
          a = my - b * mx;
          ss_res = (\<Sum>(x, y)\<leftarrow>zip xs ys. (y - (a + b * x))\<^sup>2);
          ss_tot = (\<Sum>y\<leftarrow>ys. (y - my)\<^sup>2)
      in \<lparr>r_squared =
            (if length ys < 2 then None
             else if ss_tot = 0 then Some (if ss_res = 0 then 1 else 0)
             else Some (1 - ss_res / ss_tot)),
          coefficient = b, intercept = a\<rparr>)"

definition linear_regression :: "cell list \<Rightarrow> cell list \<Rightarrow> exn + regression_result" where
  "linear_regression X y =
     (case (numbers X, numbers y) of
        (Some xs, Some ys) \<Rightarrow>
          if xs = [] \<or> length xs \<noteq> length ys then Inl ValueError
          else Inr (least_squares xs ys)
      | _ \<Rightarrow> Inl ValueError)"

text \<open>
  Pearson's coefficient over the pairs in which both entries are present; NaN when no
  pair is left or one side has no variance.
\<close>

fun complete_pairs :: "cell list \<Rightarrow> cell list \<Rightarrow> (real \<times> real) list option" where
  "complete_pairs (Num u # a) (Num v # b) =
     (case complete_pairs a b of Some ps \<Rightarrow> Some ((u, v) # ps) | None \<Rightarrow> None)"
| "complete_pairs (Str s # a) b = None"
| "complete_pairs a (Str s # b) = None"
| "complete_pairs (Time t # a) b = None"
| "complete_pairs a (Time t # b) = None"
| "complete_pairs (u # a) (v # b) = complete_pairs a b"
| "complete_pairs a b = Some []"

definition pearson :: "cell list \<Rightarrow> cell list \<Rightarrow> exn + real option" where
  "pearson a b =
     (case complete_pairs a b of
        None \<Rightarrow> Inl ValueError
      | Some ps \<Rightarrow>
          (let xs = map fst ps; ys = map snd ps; mx = mean xs; my = mean ys;
               sxx = (\<Sum>x\<leftarrow>xs. (x - mx)\<^sup>2);
               syy = (\<Sum>y\<leftarrow>ys. (y - my)\<^sup>2);
               sxy = (\<Sum>(x, y)\<leftarrow>ps. (x - mx) * (y - my))
           in if ps = [] \<or> sxx * syy = 0 then Inr None
              else Inr (Some (sxy / sqrt (sxx * syy)))))"

subsection \<open>Which references of a computation fail to resolve\<close>




subsection \<open>Example data\<close>

definition xy_table :: table where
  "xy_table =
     [\<lparr>label = ''x'', dtype = Float64, cells = [Num 1, Num 2, Num 3]\<rparr>,
      \<lparr>label = ''y'', dtype = Float64, cells = [Num 2, Num 4, Num 6]\<rparr>]"

definition xy_table_gap :: table where
  "xy_table_gap =
     [\<lparr>label = ''x'', dtype = Float64, cells = [Num 1, Num 2, Num 3, NA]\<rparr>,
      \<lparr>label = ''y'', dtype = Float64, cells = [Num 2, Num 4, Num 6, Num 9]\<rparr>]"

definition regression_xy :: "string \<Rightarrow> comp" where
  "regression_xy src =
     \<lparr>comp_type = Some ''regression'', data_source = Some src, columns = [''x'', ''y'']\<rparr>"

definition sales_files :: "string \<rightharpoonup> payload" where
  "sales_files = [''sales.csv'' \<mapsto> DataFrame xy_table]"

definition gap_files :: "string \<rightharpoonup> payload" where
  "gap_files = [''gap.csv'' \<mapsto> DataFrame xy_table_gap]"


section \<open>The chart renderer (chart\_generator.py)\<close>

type_synonym byte = "8 word"

text \<open>The fields that \<open>ChartGenerator.__init__\<close> sets.\<close>

record chart_generator =
  figure_size :: "nat \<times> nat"
  dpi :: nat
  max_size_bytes :: nat

definition ChartGenerator :: chart_generator where
  "ChartGenerator = \<lparr>figure_size = (10, 6), dpi = 100, max_size_bytes = 100000\<rparr>"

text \<open>
  A matplotlib figure is taken as what \<open>fig.savefig(buffer, format='png', dpi=d, ...)\<close>
  does with a fresh buffer, as a function of \<open>d\<close>: it raises, or it writes PNG bytes.
  Whether the call raises depends on the figure and on the installed matplotlib (the
  keyword \<open>optimize=True\<close> is not accepted by every version), so both outcomes are kept.
\<close>

type_synonym figure = "nat \<Rightarrow> exn + byte list"

text \<open>\<open>base64.b64encode\<close> (RFC 4648, with padding).\<close>

definition b64_alphabet :: string where
  "b64_alphabet = ''ABCDEFGHIJKLMNOPQRSTUVWXYZabcdefghijklmnopqrstuvwxyz0123456789+/''"

definition b64_char :: "nat \<Rightarrow> char" where
  "b64_char n = b64_alphabet ! (n mod 64)"

fun b64encode :: "byte list \<Rightarrow> string" where
  "b64encode [] = []"
| "b64encode [a] =
     [b64_char (unat a div 4), b64_char (unat a mod 4 * 16), CHR ''='', CHR ''='']"
| "b64encode [a, b] =
     [b64_char (unat a div 4), b64_char (unat a mod 4 * 16 + unat b div 16),
      b64_char (unat b mod 16 * 4), CHR ''='']"
| "b64encode (a # b # c # rest) =
     [b64_char (unat a div 4), b64_char (unat a mod 4 * 16 + unat b div 16),
      b64_char (unat b mod 16 * 4 + unat c div 64), b64_char (unat c mod 64)]
     @ b64encode rest"

text \<open>
  \<open>_fig_to_base64\<close>. Next to its outcome the model returns the \<open>dpi\<close> of each
  \<open>savefig\<close> call the function made, in order, so that the number of renders can be
  stated. The function has no handler: what \<open>savefig\<close> raises leaves it. The size test
  reads \<open>len(img_data)\<close>.
\<close>

definition fig_to_base64 :: "chart_generator \<Rightarrow> figure \<Rightarrow> nat list \<times> (exn + string)" where
  "fig_to_base64 self fig =
     (case fig (dpi self) of
        Inl e \<Rightarrow> ([dpi self], Inl e)
      | Inr img_data \<Rightarrow>
          if length img_data > max_size_bytes self
          then (case fig 50 of
                  Inl e \<Rightarrow> ([dpi self, 50], Inl e)
                | Inr img_data \<Rightarrow>
                    ([dpi self, 50], Inr (''data:image/png;base64,'' @ b64encode img_data)))
          else ([dpi self], Inr (''data:image/png;base64,'' @ b64encode img_data)))"

text \<open>
  \<open>generate_chart\<close> from the point where the figure exists: the call of
  \<open>_fig_to_base64\<close> sits in the \<open>try\<close> whose handler prints the error and returns
  \<open>None\<close>.
\<close>

definition generate_chart_fig :: "chart_generator \<Rightarrow> figure \<Rightarrow> string option" where
  "generate_chart_fig self fig =
     (case snd (fig_to_base64 self fig) of
        Inl e \<Rightarrow> None
      | Inr base64_image \<Rightarrow> Some base64_image)"

definition blank :: "nat \<Rightarrow> byte list" where
  "blank n = replicate n 0"


definition medium_figure :: figure where
  "medium_figure d = Inr (blank 75001)"

definition rejected_figure :: figure where
  "rejected_figure d = Inl TypeError"

definition coarse_only_figure :: figure where
  "coarse_only_figure d = (if d = 50 then Inl ValueError else Inr (blank 100001))"

section \<open>The cleaner and the type normalizer (data\_processor.py)\<close>

subsection \<open>The pandas operations the cleaner calls\<close>

text \<open>
  The labels of a DataFrame are taken to be distinct and its columns of one length (the
  invariant of a table); a column holds text (dtype \<open>object\<close> or \<open>category\<close>), numbers
  (\<open>float64\<close>, \<open>int64\<close>) or timestamps (\<open>datetime64\<close>), and missing entries.
\<close>

fun cell_ok :: "dtype \<Rightarrow> cell \<Rightarrow> bool" where
  "cell_ok d NA = True"
| "cell_ok d (Str s) = (d = Object \<or> d = Category)"
| "cell_ok d (Num v) = (d = Float64 \<or> d = Int64)"
| "cell_ok d (Time t) = (d = Datetime64)"

definition labels :: "table \<Rightarrow> string list" where
  "labels df = map label df"

definition nrows :: "table \<Rightarrow> nat" where
  "nrows df = (case df of [] \<Rightarrow> 0 | col # _ \<Rightarrow> length (cells col))"

definition wf_table :: "table \<Rightarrow> bool" where
  "wf_table df =
     (distinct (labels df)
      \<and> list_all (\<lambda>col. length (cells col) = nrows df) df
      \<and> list_all (\<lambda>col. list_all (cell_ok (dtype col)) (cells col)) df)"

definition is_numeric :: "column \<Rightarrow> bool" where
  "is_numeric col = (dtype col = Float64 \<or> dtype col = Int64)"

definition is_categorical :: "column \<Rightarrow> bool" where
  "is_categorical col = (dtype col = Object \<or> dtype col = Category)"

text \<open>\<open>series.isnull().sum()\<close>.\<close>

definition null_count :: "column \<Rightarrow> nat" where
  "null_count col = length (filter (\<lambda>c. c = NA) (cells col))"

text \<open>\<open>df[label] = series\<close> for a label of the frame: the column's data is replaced in place.\<close>

definition setcol :: "table \<Rightarrow> column \<Rightarrow> table" where
  "setcol df s = map (\<lambda>col. if label col = label s then s else col) df"

text \<open>\<open>df.drop(columns=[c])\<close>.\<close>

definition drop_column :: "table \<Rightarrow> string \<Rightarrow> table" where
  "drop_column df c = filter (\<lambda>col. label col \<noteq> c) df"

text \<open>\<open>df[mask]\<close>: the rows at which the boolean mask is true, in every column.\<close>

definition keep :: "bool list \<Rightarrow> 'a list \<Rightarrow> 'a list" where
  "keep flags xs = map fst (filter snd (zip xs flags))"

definition take_rows :: "bool list \<Rightarrow> table \<Rightarrow> table" where
  "take_rows flags df = map (\<lambda>col. col\<lparr>cells := keep flags (cells col)\<rparr>) df"

definition rows :: "table \<Rightarrow> cell list list" where
  "rows df = map (\<lambda>i. map (\<lambda>col. cells col ! i) df) [0..<nrows df]"

text \<open>\<open>df.dropna(how='all')\<close> and \<open>df.dropna(axis=1, how='all')\<close>.\<close>

definition dropna_rows :: "table \<Rightarrow> table" where
  "dropna_rows df = take_rows (map (\<lambda>r. \<not> list_all (\<lambda>c. c = NA) r) (rows df)) df"

definition dropna_columns :: "table \<Rightarrow> table" where
  "dropna_columns df = filter (\<lambda>col. \<not> list_all (\<lambda>c. c = NA) (cells col)) df"

text \<open>\<open>df.dropna(subset=[c])\<close>: the rows in which column \<open>c\<close> is present.\<close>

definition dropna_subset :: "table \<Rightarrow> column \<Rightarrow> table" where
  "dropna_subset df s = take_rows (map (\<lambda>c. c \<noteq> NA) (cells s)) df"

text \<open>\<open>df.drop_duplicates()\<close>: a row stays when no earlier row equals it.\<close>

fun first_seen :: "'a list \<Rightarrow> 'a list \<Rightarrow> bool list" where
  "first_seen seen [] = []"
| "first_seen seen (r # rs) = (r \<notin> set seen) # first_seen (r # seen) rs"

definition drop_duplicates :: "table \<Rightarrow> table" where
  "drop_duplicates df = take_rows (first_seen [] (rows df)) df"

text \<open>\<open>series.fillna(v)\<close>, \<open>fillna(method='ffill')\<close> and \<open>fillna(method='bfill')\<close>.\<close>

definition fillna :: "cell \<Rightarrow> column \<Rightarrow> column" where
  "fillna v s = s\<lparr>cells := map (\<lambda>c. if c = NA then v else c) (cells s)\<rparr>"

fun ffill_from :: "cell \<Rightarrow> cell list \<Rightarrow> cell list" where
  "ffill_from prev [] = []"
| "ffill_from prev (c # cs) = (if c = NA then prev # ffill_from prev cs else c # ffill_from c cs)"

definition ffill :: "column \<Rightarrow> column" where
  "ffill s = s\<lparr>cells := ffill_from NA (cells s)\<rparr>"

definition bfill :: "column \<Rightarrow> column" where
  "bfill s = s\<lparr>cells := rev (ffill_from NA (rev (cells s)))\<rparr>"

text \<open>
  \<open>series.mode()\<close> of a text column: the values that occur most often among the present
  entries, in ascending order. Python compares strings by code point, which is the
  lexicographic order of the character codes.
\<close>

fun texts :: "cell list \<Rightarrow> string list" where
  "texts [] = []"
| "texts (Str s # cs) = s # texts cs"
| "texts (c # cs) = texts cs"

definition most_frequent :: "'a list \<Rightarrow> 'a \<Rightarrow> bool" where
  "most_frequent xs x = list_all (\<lambda>y. count_list xs y \<le> count_list xs x) xs"

definition mode :: "cell list \<Rightarrow> string list" where
  "mode cs = sort (remdups (filter (most_frequent (texts cs)) (texts cs)))"

text \<open>
  \<open>series.median()\<close> and \<open>series.quantile(q)\<close> (linear interpolation) over the present
  entries; NaN when there is none. Of a column of timestamps the median is again a
  timestamp, the midpoint of the two middle ones in whole units.
\<close>

fun nums :: "cell list \<Rightarrow> real list" where
  "nums [] = []"
| "nums (Num v # cs) = v # nums cs"
| "nums (c # cs) = nums cs"

fun times :: "cell list \<Rightarrow> int list" where
  "times [] = []"
| "times (Time t # cs) = t # times cs"
| "times (c # cs) = times cs"

definition median :: "column \<Rightarrow> cell" where
  "median s =
     (if dtype s = Datetime64 then
        (let ts = sort (times (cells s)); n = length ts
         in if n = 0 then NA
            else if odd n then Time (ts ! (n div 2))
            else Time ((ts ! (n div 2 - 1) + ts ! (n div 2)) div 2))
      else
        (let vs = sort (nums (cells s)); n = length vs
         in if n = 0 then NA
            else if odd n then Num (vs ! (n div 2))
            else Num ((vs ! (n div 2 - 1) + vs ! (n div 2)) / 2)))"

definition quantile :: "column \<Rightarrow> real \<Rightarrow> real option" where
  "quantile s q =
     (let vs = sort (nums (cells s)); n = length vs
      in if n = 0 then None
         else (let h = real (n - 1) * q; lo = nat \<lfloor>h\<rfloor>; hi = min (lo + 1) (n - 1)
               in Some (vs ! lo + (h - real lo) * (vs ! hi - vs ! lo))))"

text \<open>\<open>series.mean()\<close> and \<open>series.std()\<close> (the sample deviation) over the present entries.\<close>

definition series_mean :: "column \<Rightarrow> real option" where
  "series_mean s = (let vs = nums (cells s) in if vs = [] then None else Some (mean vs))"

definition series_std :: "column \<Rightarrow> real option" where
  "series_std s =
     (let vs = nums (cells s); n = length vs
      in if n < 2 then None
         else Some (sqrt ((\<Sum>v\<leftarrow>vs. (v - mean vs)\<^sup>2) / real (n - 1))))"

subsection \<open>Statements that act on the working frame\<close>

text \<open>
  Each function of the cleaner copies its argument (\<open>df_copy = df.copy()\<close>) and then runs
  a loop whose body either leaves the working frame alone, assigns one column in place
  (\<open>df_copy[column] = ...\<close>), or binds the variable to a new frame
  (\<open>df_copy = df_copy.drop(...)\<close>, \<open>df_copy = df_copy[...]\<close>). The body is a function from
  the current frame to that effect; \<open>loop\<close> runs it over the values of the \<open>for\<close>.
\<close>

datatype effect = NoChange | SetItem column | Rebind table

definition apply_effect :: "table \<Rightarrow> effect \<Rightarrow> table" where
  "apply_effect df e = (case e of NoChange \<Rightarrow> df | SetItem s \<Rightarrow> setcol df s | Rebind df' \<Rightarrow> df')"

definition loop :: "(table \<Rightarrow> 'a \<Rightarrow> effect) \<Rightarrow> 'a list \<Rightarrow> table \<Rightarrow> table" where
  "loop body xs df = fold (\<lambda>x df_copy. apply_effect df_copy (body df_copy x)) xs df"

subsection \<open>Missing values\<close>

text \<open>
  The body of the loop of \<open>_handle_missing_values\<close>. The test
  \<open>missing_pct > 0.5\<close> on the float \<open>nulls / len(df_copy)\<close> is the integer test
  \<open>2 * nulls > len(df_copy)\<close>. The lookup of a label of the frame cannot fail while labels
  are distinct; its \<open>None\<close> case stands for that \<open>KeyError\<close>.
\<close>

definition missing_step :: "string \<Rightarrow> table \<Rightarrow> string \<Rightarrow> effect" where
  "missing_step strategy df_copy column =
     (case getcol df_copy column of
        None \<Rightarrow> NoChange
      | Some s \<Rightarrow>
          if null_count s = 0 then NoChange
          else if strategy = ''auto'' then
            (if 2 * null_count s > nrows df_copy then Rebind (drop_column df_copy column)
             else if is_categorical s then
               (case mode (cells s) of
                  mode_value # _ \<Rightarrow> SetItem (fillna (Str mode_value) s)
                | [] \<Rightarrow> SetItem (fillna (Str ''Unknown'') s))
             else SetItem (fillna (median s) s))
          else if strategy = ''drop'' then Rebind (dropna_subset df_copy s)
          else if strategy = ''forward_fill'' then SetItem (ffill s)
          else if strategy = ''backward_fill'' then SetItem (bfill s)
          else NoChange)"

definition handle_missing_values :: "table \<Rightarrow> string \<Rightarrow> table" where
  "handle_missing_values df strategy = loop (missing_step strategy) (labels df) df"

subsection \<open>Type conversion\<close>

text \<open>The three patterns of \<open>_is_date_column\<close>; \<open>re.match\<close> anchors them at the start.\<close>

datatype pat = Digit | Lit char

definition is_digit :: "char \<Rightarrow> bool" where
  "is_digit c = (c \<in> set ''0123456789'')"

fun match_prefix :: "pat list \<Rightarrow> string \<Rightarrow> bool" where
  "match_prefix [] s = True"
| "match_prefix (p # ps) [] = False"
| "match_prefix (Digit # ps) (c # s) = (is_digit c \<and> match_prefix ps s)"
| "match_prefix (Lit l # ps) (c # s) = (c = l \<and> match_prefix ps s)"

definition date_patterns :: "pat list list" where
  "date_patterns =
     [[Digit, Digit, Digit, Digit, Lit CHR ''-'', Digit, Digit, Lit CHR ''-'', Digit, Digit],
      [Digit, Digit, Lit CHR ''/'', Digit, Digit, Lit CHR ''/'', Digit, Digit, Digit, Digit],
      [Digit, Digit, Lit CHR ''-'', Digit, Digit, Lit CHR ''-'', Digit, Digit, Digit, Digit]]"

text \<open>
  \<open>str(value)\<close> of a sampled value against the patterns. The text of a number matches
  none of them; the text of a timestamp starts with its ISO date.
\<close>

fun date_like :: "cell \<Rightarrow> bool" where
  "date_like (Str s) = list_ex (\<lambda>p. match_prefix p s) date_patterns"
| "date_like (Time t) = True"
| "date_like c = False"

definition is_date_column :: "column \<Rightarrow> bool" where
  "is_date_column series = list_ex date_like (take 10 (filter (\<lambda>c. c \<noteq> NA) (cells series)))"

text \<open>
  \<open>astype(str).str.replace(r'[,$%]', '', regex=True)\<close> followed by
  \<open>pd.to_numeric(errors='coerce')\<close>, entry by entry. The library parser is the parameter
  \<open>to_numeric\<close>, \<open>None\<close> where it cannot read a number. A missing entry becomes the text
  \<open>nan\<close>, which is read as NaN; a number becomes its own text.
\<close>

definition strip_formatting :: "string \<Rightarrow> string" where
  "strip_formatting s = filter (\<lambda>c. c \<noteq> CHR '','' \<and> c \<noteq> CHR ''$'' \<and> c \<noteq> CHR ''%'') s"

fun numeric_cell :: "(string \<Rightarrow> real option) \<Rightarrow> cell \<Rightarrow> cell" where
  "numeric_cell to_numeric (Str s) =
     (case to_numeric (strip_formatting s) of Some v \<Rightarrow> Num v | None \<Rightarrow> NA)"
| "numeric_cell to_numeric (Num v) = Num v"
| "numeric_cell to_numeric c = NA"

definition notna_count :: "cell list \<Rightarrow> nat" where
  "notna_count cs = length (filter (\<lambda>c. c \<noteq> NA) cs)"

text \<open>
  The body of the loop of \<open>_convert_data_types\<close>. \<open>pd.to_datetime(errors='coerce')\<close> is
  the parameter \<open>to_datetime\<close> on the whole column, \<open>None\<close> when it raises (the bare
  \<open>except\<close> then falls through to the numeric attempt). The test
  \<open>notna().sum() / len(numeric_series) > 0.8\<close> on floats is the integer test
  \<open>5 * parsed > 4 * len\<close>. A converted column is numeric; whether pandas picks \<open>int64\<close>
  or \<open>float64\<close> for it is not distinguished.
\<close>

definition convert_step ::
  "(string \<Rightarrow> real option) \<Rightarrow> (cell list \<Rightarrow> cell list option) \<Rightarrow> table \<Rightarrow> string \<Rightarrow> effect" where
  "convert_step to_numeric to_datetime df_copy column =
     (case getcol df_copy column of
        None \<Rightarrow> NoChange
      | Some s \<Rightarrow>
          if dtype s = Object then
            (case (if is_date_column s then to_datetime (cells s) else None) of
               Some dates \<Rightarrow> SetItem (s\<lparr>dtype := Datetime64, cells := dates\<rparr>)
             | None \<Rightarrow>
                 (let numeric_series = map (numeric_cell to_numeric) (cells s)
                  in if 5 * notna_count numeric_series > 4 * length numeric_series
                     then SetItem (s\<lparr>dtype := Float64, cells := numeric_series\<rparr>)
                     else NoChange))
          else NoChange)"

definition convert_data_types ::
  "(string \<Rightarrow> real option) \<Rightarrow> (cell list \<Rightarrow> cell list option) \<Rightarrow> table \<Rightarrow> table" where
  "convert_data_types to_numeric to_datetime df =
     loop (convert_step to_numeric to_datetime) (labels df) df"

subsection \<open>Outliers\<close>

text \<open>A comparison with NaN on either side is false.\<close>

fun in_bounds :: "real option \<Rightarrow> real option \<Rightarrow> cell \<Rightarrow> bool" where
  "in_bounds (Some lo) (Some hi) (Num v) = (lo \<le> v \<and> v \<le> hi)"
| "in_bounds lo hi c = False"

fun z_below :: "real option \<Rightarrow> real option \<Rightarrow> cell \<Rightarrow> bool" where
  "z_below (Some m) (Some sd) (Num v) = (sd \<noteq> 0 \<and> \<bar>(v - m) / sd\<bar> < 3)"
| "z_below m sd c = False"

definition lower_bound :: "column \<Rightarrow> real option" where
  "lower_bound s =
     (case (quantile s (1/4), quantile s (3/4)) of
        (Some Q1, Some Q3) \<Rightarrow> Some (Q1 - 1.5 * (Q3 - Q1))
      | _ \<Rightarrow> None)"

definition upper_bound :: "column \<Rightarrow> real option" where
  "upper_bound s =
     (case (quantile s (1/4), quantile s (3/4)) of
        (Some Q1, Some Q3) \<Rightarrow> Some (Q3 + 1.5 * (Q3 - Q1))
      | _ \<Rightarrow> None)"

text \<open>The body of the loop of \<open>_remove_outliers\<close>, over the numeric columns.\<close>

definition outlier_step :: "string \<Rightarrow> table \<Rightarrow> string \<Rightarrow> effect" where
  "outlier_step method df_copy column =
     (case getcol df_copy column of
        None \<Rightarrow> NoChange
      | Some s \<Rightarrow>
          if method = ''iqr'' then
            Rebind (take_rows (map (in_bounds (lower_bound s) (upper_bound s)) (cells s)) df_copy)
          else if method = ''zscore'' then
            Rebind (take_rows (map (z_below (series_mean s) (series_std s)) (cells s)) df_copy)
          else NoChange)"

definition remove_outliers :: "table \<Rightarrow> string \<Rightarrow> table" where
  "remove_outliers df method = loop (outlier_step method) (labels (filter is_numeric df)) df"

subsection \<open>The cleaning pipeline\<close>

text \<open>The \<open>options\<close> dict: each key may be absent; \<open>options=None\<close> is the dict without keys.\<close>

record options =
  opt_missing_strategy :: "string option"
  opt_remove_duplicates :: "bool option"
  opt_remove_outliers :: "bool option"

definition clean_dataframe ::
  "(string \<Rightarrow> real option) \<Rightarrow> (cell list \<Rightarrow> cell list option) \<Rightarrow> table \<Rightarrow> options \<Rightarrow> table" where
  "clean_dataframe to_numeric to_datetime df opts =
     (let df_cleaned = dropna_columns (dropna_rows df);
          missing_strategy = (case opt_missing_strategy opts of Some s \<Rightarrow> s | None \<Rightarrow> ''auto'');
          df_cleaned = handle_missing_values df_cleaned missing_strategy;
          df_cleaned = convert_data_types to_numeric to_datetime df_cleaned;
          df_cleaned = (if (case opt_remove_duplicates opts of Some b \<Rightarrow> b | None \<Rightarrow> True)
                        then drop_duplicates df_cleaned else df_cleaned);
          df_cleaned = (if (case opt_remove_outliers opts of Some b \<Rightarrow> b | None \<Rightarrow> False)
                        then remove_outliers df_cleaned ''iqr'' else df_cleaned)
      in df_cleaned)"

subsection \<open>The policies column by column\<close>

text \<open>
  What the auto policy makes of one column of a table of \<open>n\<close> rows, in the words of the
  specification: the column itself when nothing is missing, nothing when more than half
  is missing, and otherwise the column filled with its most frequent value (text; the
  literal \<open>Unknown\<close> when there is no mode) or with its median (any other dtype).
\<close>

definition auto_policy :: "nat \<Rightarrow> column \<Rightarrow> column list" where
  "auto_policy n s =
     (if null_count s = 0 then [s]
      else if 2 * null_count s > n then []
      else if is_categorical s then
        [fillna (case mode (cells s) of m # _ \<Rightarrow> Str m | [] \<Rightarrow> Str ''Unknown'') s]
      else [fillna (median s) s])"

text \<open>
  What the type normalizer makes of one column: a text column that is taken for dates
  and parses as such becomes a date column; otherwise it becomes numeric when more than
  four fifths of its entries read as numbers; any other column stays as it is.
\<close>

definition convert_column ::
  "(string \<Rightarrow> real option) \<Rightarrow> (cell list \<Rightarrow> cell list option) \<Rightarrow> column \<Rightarrow> column" where
  "convert_column to_numeric to_datetime s =
     (if dtype s = Object then
        (case (if is_date_column s then to_datetime (cells s) else None) of
           Some dates \<Rightarrow> s\<lparr>dtype := Datetime64, cells := dates\<rparr>
         | None \<Rightarrow>
             if 5 * notna_count (map (numeric_cell to_numeric) (cells s)) > 4 * length (cells s)
             then s\<lparr>dtype := Float64, cells := map (numeric_cell to_numeric) (cells s)\<rparr>
             else s)
      else s)"

text \<open>
  A stand-in for the library parser on the inputs of the examples: a non-empty string of
  decimal digits reads as that number, and nothing else is read.
\<close>

definition digit_value :: "char \<Rightarrow> nat" where
  "digit_value c = of_char c - 48"

definition parse_digits :: "string \<Rightarrow> real option" where
  "parse_digits s =
     (if s \<noteq> [] \<and> list_all is_digit s
      then Some (real (foldl (\<lambda>n c. 10 * n + digit_value c) 0 s))
      else None)"

definition no_dates :: "cell list \<Rightarrow> cell list option" where
  "no_dates cs = None"

definition price_table :: table where
  "price_table =
     [\<lparr>label = ''price'', dtype = Object,
       cells = [Str ''$1,200'', Str ''35%'', Str ''7'', Str ''8'', Str ''9'', Str ''n/a'']\<rparr>]"

definition mixed_table :: table where
  "mixed_table =
     [\<lparr>label = ''city'', dtype = Object, cells = [Str ''Pune'', NA, Str ''Agra'', Str ''Pune'']\<rparr>,
      \<lparr>label = ''age'', dtype = Float64, cells = [Num 30, Num 10, NA, Num 20]\<rparr>,
      \<lparr>label = ''note'', dtype = Object, cells = [NA, NA, Str ''x'', NA]\<rparr>]"

definition amount_table :: table where
  "amount_table =
     [\<lparr>label = ''amount'', dtype = Object,
       cells = [Str ''1'', Str ''2'', Str ''3'', Str ''4'', Str ''x'']\<rparr>,
      \<lparr>label = ''count'', dtype = Object,
       cells = [Str ''1'', Str ''2'', Str ''3'', Str ''4'', NA]\<rparr>]"

subsection \<open>Frames as objects in a store\<close>

text \<open>
  Where identity matters a DataFrame is an object: the store lists the frames ever
  created, an object is its position in the list. \<open>df.copy()\<close> and every pandas call
  that returns a frame append a new object; \<open>df[column] = ...\<close> overwrites the object it
  is applied to. \<open>run_loop\<close> runs a loop body on the object the frame variable is bound
  to, as \<open>loop\<close> does on its value.
\<close>

type_synonym store = "table list"

definition alloc :: "store \<Rightarrow> table \<Rightarrow> store \<times> nat" where
  "alloc h df = (h @ [df], length h)"

definition copy :: "store \<Rightarrow> nat \<Rightarrow> store \<times> nat" where
  "copy h df = alloc h (h ! df)"

fun exec :: "store \<times> nat \<Rightarrow> effect \<Rightarrow> store \<times> nat" where
  "exec (h, p) NoChange = (h, p)"
| "exec (h, p) (SetItem s) = (h[p := setcol (h ! p) s], p)"
| "exec (h, p) (Rebind df) = alloc h df"

definition content :: "store \<times> nat \<Rightarrow> table" where
  "content hp = fst hp ! snd hp"

definition run_loop :: "(table \<Rightarrow> 'a \<Rightarrow> effect) \<Rightarrow> 'a list \<Rightarrow> store \<times> nat \<Rightarrow> store \<times> nat" where
  "run_loop body xs hp = fold (\<lambda>x hp. exec hp (body (content hp) x)) xs hp"

text \<open>The functions of the cleaner on objects: each starts with \<open>df_copy = df.copy()\<close>.\<close>

definition handle_missing_values_obj :: "store \<Rightarrow> nat \<Rightarrow> string \<Rightarrow> store \<times> nat" where
  "handle_missing_values_obj h df strategy =
     (let df_copy = copy h df
      in run_loop (missing_step strategy) (labels (content df_copy)) df_copy)"

definition convert_data_types_obj ::
  "(string \<Rightarrow> real option) \<Rightarrow> (cell list \<Rightarrow> cell list option) \<Rightarrow> store \<Rightarrow> nat \<Rightarrow> store \<times> nat" where
  "convert_data_types_obj to_numeric to_datetime h df =
     (let df_copy = copy h df
      in run_loop (convert_step to_numeric to_datetime) (labels (content df_copy)) df_copy)"

definition remove_outliers_obj :: "store \<Rightarrow> nat \<Rightarrow> string \<Rightarrow> store \<times> nat" where
  "remove_outliers_obj h df method =
     (let df_copy = copy h df
      in run_loop (outlier_step method) (labels (filter is_numeric (content df_copy))) df_copy)"

definition clean_dataframe_obj ::
  "(string \<Rightarrow> real option) \<Rightarrow> (cell list \<Rightarrow> cell list option) \<Rightarrow> store \<Rightarrow> nat \<Rightarrow> options \<Rightarrow>
   store \<times> nat" where
  "clean_dataframe_obj to_numeric to_datetime h df opts =
     (let df_cleaned = copy h df;
          df_cleaned = alloc (fst df_cleaned) (dropna_rows (content df_cleaned));
          df_cleaned = alloc (fst df_cleaned) (dropna_columns (content df_cleaned));
          missing_strategy = (case opt_missing_strategy opts of Some s \<Rightarrow> s | None \<Rightarrow> ''auto'');
          df_cleaned = handle_missing_values_obj (fst df_cleaned) (snd df_cleaned) missing_strategy;
          df_cleaned = convert_data_types_obj to_numeric to_datetime (fst df_cleaned) (snd df_cleaned);
          df_cleaned = (if (case opt_remove_duplicates opts of Some b \<Rightarrow> b | None \<Rightarrow> True)
                        then alloc (fst df_cleaned) (drop_duplicates (content df_cleaned))
                        else df_cleaned);
          df_cleaned = (if (case opt_remove_outliers opts of Some b \<Rightarrow> b | None \<Rightarrow> False)
                        then remove_outliers_obj (fst df_cleaned) (snd df_cleaned) ''iqr''
                        else df_cleaned)
      in df_cleaned)"

text \<open>
  A state of the store and a frame variable keeps the earlier store \<open>h0\<close> when the objects
  of \<open>h0\<close> are where and what they were, and the variable is bound to a later object.
\<close>

definition keeps :: "store \<Rightarrow> store \<times> nat \<Rightarrow> bool" where
  "keeps h0 hp = (take (length h0) (fst hp) = h0 \<and> length h0 \<le> snd hp \<and> snd hp < length (fst hp))"


definition default_options :: options where
  "default_options =
     \<lparr>opt_missing_strategy = None, opt_remove_duplicates = None, opt_remove_outliers = None\<rparr>"

section \<open>The processor instance and \<open>prepare_for_ml\<close> (data\_processor.py)\<close>









record 'sc ml_result =
  data :: table
  result_encoders :: "string \<rightharpoonup> string list"
  result_scalers :: "string \<rightharpoonup> 'sc"
  feature_columns :: "string list"
  result_target :: "string option"








definition skewed_table :: table where
  "skewed_table =
     [\<lparr>label = ''v'', dtype = Float64,
       cells = [Num 0, Num 0, Num 0, Num 0, Num 0, Num 0, Num 0, Num 1, Num 1, Num 100]\<rparr>]"


text \<open>A decoder that accepts the empty object only, to run the parser on.\<close>

definition loads_empty_object :: "string \<Rightarrow> (string \<times> pyval) list option" where
  "loads_empty_object s = (if s = ''{}'' then Some [] else None)"





section \<open>Results\<close>

subsection \<open>The fallback for an unparseable response\<close>

lemma fallback_not_computed:
  "\<not> truthy (dict_get (fallback_response t) ''requires_computation'' (PBool False))"
  by (simp add: fallback_response_def dict_get_def)

lemma fallback_not_charted:
  "\<not> truthy (dict_get (fallback_response t) ''needs_visualization'' (PBool False))"
  by (simp add: fallback_response_def dict_get_def)

lemma member_nonempty: "x \<in> set ys \<Longrightarrow> ys \<noteq> []"
  by auto

lemma has_span_alt:
  "has_span t \<longleftrightarrow> (\<exists>i j. i < j \<and> j < length t \<and> t ! i = CHR ''{'' \<and> t ! j = CHR ''}'')"
  unfolding has_span_def by (auto simp: Bex_def)

lemma has_span_iff: "has_span t \<longleftrightarrow> CHR ''}'' \<in> set (dropWhile (\<lambda>c. c \<noteq> CHR ''{'') t)"
proof
  let ?P = "\<lambda>c. c \<noteq> CHR ''{''"
  let ?k = "length (takeWhile ?P t)"
  assume "has_span t"
  then obtain i j where ij: "i < j" "j < length t" "t ! i = CHR ''{''" "t ! j = CHR ''}''"
    by (auto simp: has_span_alt)
  have "?k \<le> i"
  proof (rule ccontr)
    assume "\<not> ?k \<le> i"
    then have "i < ?k" by simp
    then have "takeWhile ?P t ! i \<in> set (takeWhile ?P t)" by (rule nth_mem)
    then have "takeWhile ?P t ! i \<noteq> CHR ''{''" by (rule set_takeWhileD [THEN conjunct2])
    moreover from \<open>i < ?k\<close> have "takeWhile ?P t ! i = t ! i" by (rule takeWhile_nth)
    ultimately show False using ij(3) by simp
  qed
  with ij have "?k \<le> j" by simp
  with ij(2,4) have "CHR ''}'' \<in> set (drop ?k t)"
    by (auto simp: in_set_conv_nth intro!: exI [of _ "j - ?k"])
  then show "CHR ''}'' \<in> set (dropWhile ?P t)"
    by (simp add: dropWhile_eq_drop)
next
  let ?P = "\<lambda>c. c \<noteq> CHR ''{''"
  let ?k = "length (takeWhile ?P t)"
  assume a: "CHR ''}'' \<in> set (dropWhile ?P t)"
  then have ne: "dropWhile ?P t \<noteq> []" by (rule member_nonempty)
  then have "\<not> ?P (hd (dropWhile ?P t))" by (rule hd_dropWhile)
  moreover from ne have k: "?k < length t" by (simp add: dropWhile_eq_drop)
  ultimately have tk: "t ! ?k = CHR ''{''"
    by (simp add: dropWhile_eq_drop hd_drop_conv_nth)
  from a obtain m where m: "m < length t - ?k" "drop ?k t ! m = CHR ''}''"
    by (auto simp: dropWhile_eq_drop in_set_conv_nth)
  then have j: "t ! (?k + m) = CHR ''}''" "?k + m < length t" by simp_all
  with tk have "m \<noteq> 0" by (cases m) auto
  with j tk show "has_span t"
    unfolding has_span_alt by (intro exI [of _ ?k] exI [of _ "?k + m"]) simp
qed

lemma json_match_None: "json_match t = None \<longleftrightarrow> \<not> has_span t"
  by (simp add: json_match_def has_span_iff Let_def)

lemma json_match_Some:
  assumes "has_span t"
  shows "\<exists>pre s post. t = pre @ s @ post \<and> CHR ''{'' \<notin> set pre \<and> CHR ''}'' \<notin> set post
           \<and> s \<noteq> [] \<and> hd s = CHR ''{'' \<and> last s = CHR ''}'' \<and> json_match t = Some s"
proof -
  let ?P = "\<lambda>c. c \<noteq> CHR ''{''" and ?Q = "\<lambda>c. c \<noteq> CHR ''}''"
  let ?rest = "dropWhile ?P t"
  let ?s = "rev (dropWhile ?Q (rev ?rest))" and ?post = "rev (takeWhile ?Q (rev ?rest))"
  from assms have a: "CHR ''}'' \<in> set ?rest" by (simp add: has_span_iff)
  then have m: "json_match t = Some ?s" by (simp add: json_match_def Let_def)
  have "?s @ ?post = rev (takeWhile ?Q (rev ?rest) @ dropWhile ?Q (rev ?rest))"
    by (simp only: rev_append)
  also have "\<dots> = rev (rev ?rest)" by (simp only: takeWhile_dropWhile_id)
  also have "\<dots> = ?rest" by simp
  finally have r: "?rest = ?s @ ?post" by (rule sym)
  have t: "t = takeWhile ?P t @ ?s @ ?post"
    using r takeWhile_dropWhile_id [of ?P t] by simp
  have p1: "CHR ''{'' \<notin> set (takeWhile ?P t)" by (auto dest: set_takeWhileD)
  have p2: "CHR ''}'' \<notin> set ?post" by (auto dest: set_takeWhileD)
  from a have d: "dropWhile ?Q (rev ?rest) \<noteq> []"
    by (simp add: dropWhile_eq_Nil_conv)
  then have s: "?s \<noteq> []" by simp
  from d have "\<not> ?Q (hd (dropWhile ?Q (rev ?rest)))" by (rule hd_dropWhile)
  with d have l: "last ?s = CHR ''}''" by (simp add: last_rev)
  from a have ne: "?rest \<noteq> []" by (rule member_nonempty)
  then have "\<not> ?P (hd ?rest)" by (rule hd_dropWhile)
  moreover from r s have "hd ?rest = hd ?s" by (metis hd_append2)
  ultimately have h: "hd ?s = CHR ''{''" by simp
  from t p1 p2 s h l m show ?thesis by blast
qed

text \<open>
  C7 (as amended). The parser has three outcomes. When the text holds no opening brace
  followed later by a closing brace, it returns the fallback. Otherwise the text splits
  into a prefix without opening brace, a span from the first opening brace to the last
  closing brace, and a suffix without closing brace; if \<open>json.loads\<close> rejects the span
  the parser returns the fallback, and if \<open>json.loads\<close> accepts it the parser returns
  the decoded value as it is, whatever its keys. The fallback has \<open>answers\<close> equal to
  the one-element list of the raw text, \<open>insights\<close> equal to the raw text, \<open>success\<close>
  true, no \<open>chart\<close> and no \<open>computations\<close> entry, and neither the computation step
  nor the chart step changes it.
\<close>

theorem parse_analysis_response_cases:
  "(\<not> has_span text \<longrightarrow> parse_analysis_response loads text = fallback_response text)
   \<and> (has_span text \<longrightarrow>
        (\<exists>pre s post. text = pre @ s @ post \<and> CHR ''{'' \<notin> set pre \<and> CHR ''}'' \<notin> set post
            \<and> s \<noteq> [] \<and> hd s = CHR ''{'' \<and> last s = CHR ''}''
            \<and> parse_analysis_response loads text
                = (case loads s of Some parsed \<Rightarrow> parsed | None \<Rightarrow> fallback_response text)))
   \<and> (parse_analysis_response loads text = fallback_response text \<longrightarrow>
        map_of (parse_analysis_response loads text) ''answers'' = Some (PList [PStr text])
        \<and> map_of (parse_analysis_response loads text) ''insights'' = Some (PStr text)
        \<and> map_of (parse_analysis_response loads text) ''success'' = Some (PBool True)
        \<and> map_of (parse_analysis_response loads text) ''chart'' = None
        \<and> map_of (parse_analysis_response loads text) ''computations'' = None
        \<and> attach_chart generate_chart (analyze_response loads compute text)
            = fallback_response text)"
proof (intro conjI impI)
  assume "\<not> has_span text"
  then show "parse_analysis_response loads text = fallback_response text"
    by (simp add: parse_analysis_response_def json_match_None [symmetric])
next
  assume "has_span text"
  from json_match_Some [OF this] obtain pre s post where
    d: "text = pre @ s @ post" "CHR ''{'' \<notin> set pre" "CHR ''}'' \<notin> set post"
       "s \<noteq> []" "hd s = CHR ''{''" "last s = CHR ''}''"
    and m: "json_match text = Some s"
    by blast
  from m have "parse_analysis_response loads text
      = (case loads s of Some parsed \<Rightarrow> parsed | None \<Rightarrow> fallback_response text)"
    by (simp add: parse_analysis_response_def)
  with d show "\<exists>pre s post. text = pre @ s @ post \<and> CHR ''{'' \<notin> set pre \<and> CHR ''}'' \<notin> set post
            \<and> s \<noteq> [] \<and> hd s = CHR ''{'' \<and> last s = CHR ''}''
            \<and> parse_analysis_response loads text
                = (case loads s of Some parsed \<Rightarrow> parsed | None \<Rightarrow> fallback_response text)"
    by blast
next
  assume p: "parse_analysis_response loads text = fallback_response text"
  have a: "analyze_response loads compute text = fallback_response text"
    unfolding analyze_response_def Let_def p using fallback_not_computed [of "text"] by simp
  have c: "attach_chart generate_chart (fallback_response text) = fallback_response text"
    unfolding attach_chart_def using fallback_not_charted [of "text"] by simp
  show "map_of (parse_analysis_response loads text) ''answers'' = Some (PList [PStr text])"
    and "map_of (parse_analysis_response loads text) ''insights'' = Some (PStr text)"
    and "map_of (parse_analysis_response loads text) ''success'' = Some (PBool True)"
    and "map_of (parse_analysis_response loads text) ''chart'' = None"
    and "map_of (parse_analysis_response loads text) ''computations'' = None"
    and "attach_chart generate_chart (analyze_response loads compute text) = fallback_response text"
    unfolding p a c by (simp_all add: fallback_response_def)
qed

theorem parse_analysis_response_witness:
  "\<not> has_span ''no data here''
   \<and> parse_analysis_response loads_empty_object ''no data here''
       = [(''answers'', PList [PStr ''no data here'']),
          (''insights'', PStr ''no data here''),
          (''needs_visualization'', PBool False),
          (''requires_computation'', PBool False),
          (''success'', PBool True)]
   \<and> has_span ''{oops}''
   \<and> map_of (parse_analysis_response loads_empty_object ''{oops}'') ''answers''
       = Some (PList [PStr ''{oops}''])"
proof -
  have n: "\<not> has_span ''no data here''"
    by (simp add: has_span_iff)
  have h: "has_span ''{oops}''"
    by (simp add: has_span_iff)
  note t1 = parse_analysis_response_cases [of "''no data here''" loads_empty_object]
  note t2 = parse_analysis_response_cases [of "''{oops}''" loads_empty_object]
  from t1 n have 1: "parse_analysis_response loads_empty_object ''no data here''
      = fallback_response ''no data here''"
    by blast
  have "parse_analysis_response loads_empty_object ''{oops}'' = fallback_response ''{oops}''"
    by (simp add: parse_analysis_response_def json_match_def loads_empty_object_def)
  with t2 have 2: "map_of (parse_analysis_response loads_empty_object ''{oops}'') ''answers''
       = Some (PList [PStr ''{oops}''])"
    by blast
  from n h 1 2 show ?thesis
    by (simp add: fallback_response_def)
qed

theorem valid_json_of_another_shape_counterexample:
  "has_span ''Result: {}''
   \<and> json_match ''Result: {}'' = Some ''{}''
   \<and> parse_analysis_response loads_empty_object ''Result: {}'' = []
   \<and> map_of (parse_analysis_response loads_empty_object ''Result: {}'') ''answers'' = None
   \<and> map_of (parse_analysis_response loads_empty_object ''Result: {}'') ''success'' = None"
  by (simp add: has_span_iff parse_analysis_response_def json_match_def loads_empty_object_def)

subsection \<open>Failed references in the computation list\<close>







lemma regression_xy_sales:
  "perform_computations corr linear_regression [regression_xy ''sales.csv''] sales_files
   = [''regression_x_y'' \<mapsto> Regression \<lparr>r_squared = Some 1, coefficient = 2, intercept = 0\<rparr>]"
  by (simp add: perform_computations_def computation_outcome_def store_outcome_def
      regression_xy_def sales_files_def xy_table_def getcol_def linear_regression_def
      least_squares_def mean_def Let_def power2_eq_square)



subsection \<open>Regression\<close>

lemma numbers_NA: "NA \<in> set cs \<Longrightarrow> numbers cs = None"
  by (induction cs rule: numbers.induct) (auto split: option.splits)

text \<open>
  C4 (as amended). A regression hands both columns to the estimator as they are, every
  row included, and stores \<open>r_squared\<close>, \<open>coefficient\<close> and \<open>intercept\<close> under
  \<open>regression_<x>_<y>\<close>, or the estimator's failure under \<open>computation_error_regression\<close>.
  No row is excluded: with a missing value in either column the estimator rejects the
  input. On the table \<open>[(1,2),(2,4),(3,6)]\<close> the exact fit has slope 2, intercept 0 and
  coefficient of determination 1.
\<close>

theorem regression_takes_every_row:
  assumes "data_files src = Some (DataFrame df)"
    and "getcol df x = Some cx" and "getcol df y = Some cy"
  shows "perform_computations corr linear_regression
           [\<lparr>comp_type = Some ''regression'', data_source = Some src, columns = [x, y]\<rparr>]
           data_files
         = (case linear_regression (cells cx) (cells cy) of
              Inr model \<Rightarrow> [''regression_'' @ x @ ''_'' @ y \<mapsto> Regression model]
            | Inl e \<Rightarrow> [''computation_error_regression'' \<mapsto> Failed e])
       \<and> (NA \<in> set (cells cx) \<union> set (cells cy) \<longrightarrow>
            perform_computations corr linear_regression
              [\<lparr>comp_type = Some ''regression'', data_source = Some src, columns = [x, y]\<rparr>]
              data_files
            = [''computation_error_regression'' \<mapsto> Failed ValueError])
       \<and> perform_computations corr linear_regression [regression_xy ''sales.csv''] sales_files
         = [''regression_x_y'' \<mapsto>
              Regression \<lparr>r_squared = Some 1, coefficient = 2, intercept = 0\<rparr>]"
proof -
  let ?c = "\<lparr>comp_type = Some ''regression'', data_source = Some src, columns = [x, y]\<rparr>"
  have run: "perform_computations corr linear_regression [?c] data_files
         = (case linear_regression (cells cx) (cells cy) of
              Inr model \<Rightarrow> [''regression_'' @ x @ ''_'' @ y \<mapsto> Regression model]
            | Inl e \<Rightarrow> [''computation_error_regression'' \<mapsto> Failed e])"
    using assms
    by (simp add: perform_computations_def computation_outcome_def store_outcome_def
        error_key_def split: sum.splits)
  have na: "linear_regression (cells cx) (cells cy) = Inl ValueError"
    if "NA \<in> set (cells cx) \<union> set (cells cy)"
    using that by (auto simp: linear_regression_def numbers_NA split: option.splits)
  show ?thesis
    using run na regression_xy_sales [of corr] by simp
qed

theorem regression_takes_every_row_witness:
  "gap_files ''gap.csv'' = Some (DataFrame xy_table_gap)
   \<and> NA \<in> set [Num 1, Num 2, Num 3, NA]
   \<and> perform_computations pearson linear_regression [regression_xy ''gap.csv''] gap_files
     = [''computation_error_regression'' \<mapsto> Failed ValueError]"
proof -
  have f: "gap_files ''gap.csv'' = Some (DataFrame xy_table_gap)"
    by (simp add: gap_files_def)
  have x: "getcol xy_table_gap ''x''
       = Some \<lparr>label = ''x'', dtype = Float64, cells = [Num 1, Num 2, Num 3, NA]\<rparr>"
    by (simp add: getcol_def xy_table_gap_def)
  have y: "getcol xy_table_gap ''y''
       = Some \<lparr>label = ''y'', dtype = Float64, cells = [Num 2, Num 4, Num 6, Num 9]\<rparr>"
    by (simp add: getcol_def xy_table_gap_def)
  note t = regression_takes_every_row [of gap_files "''gap.csv''" xy_table_gap "''x''" _ "''y''" _
      pearson, OF f x y]
  from conjunct1 [OF conjunct2 [OF t]]
  have "perform_computations pearson linear_regression [regression_xy ''gap.csv''] gap_files
     = [''computation_error_regression'' \<mapsto> Failed ValueError]"
    by (simp add: regression_xy_def)
  with f show ?thesis by simp
qed

theorem regression_keeps_missing_rows_counterexample:
  "perform_computations pearson linear_regression [regression_xy ''gap.csv''] gap_files
     ''regression_x_y'' = None
   \<and> perform_computations pearson linear_regression [regression_xy ''gap.csv''] gap_files
     ''computation_error_regression'' = Some (Failed ValueError)"
  by (simp add: perform_computations_def computation_outcome_def store_outcome_def
      regression_xy_def gap_files_def xy_table_gap_def getcol_def linear_regression_def
      error_key_def)

subsection \<open>The size budget of a rendered chart\<close>

lemma b64encode_Man: "b64encode [77, 97, 110] = ''TWFu''"
  by (simp add: b64_char_def b64_alphabet_def)
lemma b64encode_Ma: "b64encode [77, 97] = ''TWE=''"
  by (simp add: b64_char_def b64_alphabet_def)
lemma b64encode_M: "b64encode [77] = ''TQ==''"
  by (simp add: b64_char_def b64_alphabet_def)

lemma length_b64encode: "length (b64encode bs) = 4 * ((length bs + 2) div 3)"
proof (induction bs rule: b64encode.induct)
  case (4 a b c rest)
  have "(length (a # b # c # rest) + 2) div 3 = Suc ((length rest + 2) div 3)"
    by simp
  with 4 show ?case by simp
qed simp_all

lemma length_blank: "length (blank n) = n"
  by (simp add: blank_def)





text \<open>
  Remarks. A render that raises leaves no chart, at the first attempt or at the
  second. The size test is made before encoding: a render of 75 001 bytes is
  100 004 characters once encoded, and is returned without a second render.
\<close>

lemma rejected_render: "generate_chart_fig ChartGenerator rejected_figure = None"
  by (simp add: generate_chart_fig_def fig_to_base64_def rejected_figure_def)

lemma rejected_second_render:
  "fig_to_base64 ChartGenerator coarse_only_figure = ([100, 50], Inl ValueError)
   \<and> generate_chart_fig ChartGenerator coarse_only_figure = None"
  by (simp add: generate_chart_fig_def fig_to_base64_def coarse_only_figure_def
      ChartGenerator_def length_blank)

lemma size_test_before_encoding:
  "fst (fig_to_base64 ChartGenerator medium_figure) = [100]
   \<and> length (b64encode (blank 75001)) = 100004"
  by (simp add: fig_to_base64_def length_b64encode ChartGenerator_def medium_figure_def
      length_blank)

subsection \<open>Loops over the columns of a frame\<close>

lemma getcol_mid:
  "label x \<notin> set (labels pre) \<Longrightarrow> getcol (pre @ x # rest) (label x) = Some x"
  by (induction pre) (auto simp: getcol_def labels_def)

lemma setcol_other:
  "l \<notin> set (labels ys) \<Longrightarrow> map (\<lambda>col. if label col = l then s else col) ys = ys"
  by (induction ys) (auto simp: labels_def)

lemma drop_column_other:
  "l \<notin> set (labels ys) \<Longrightarrow> filter (\<lambda>col. label col \<noteq> l) ys = ys"
  by (induction ys) (auto simp: labels_def)

lemma setcol_mid:
  assumes "distinct (labels (pre @ x # rest))" and "label s = label x"
  shows "setcol (pre @ x # rest) s = pre @ s # rest"
proof -
  from assms(1) have "label x \<notin> set (labels pre)" and "label x \<notin> set (labels rest)"
    by (auto simp: labels_def)
  then show ?thesis
    using assms(2) by (simp add: setcol_def setcol_other)
qed

lemma drop_column_mid:
  assumes "distinct (labels (pre @ x # rest))"
  shows "drop_column (pre @ x # rest) (label x) = pre @ rest"
proof -
  from assms have "label x \<notin> set (labels pre)" and "label x \<notin> set (labels rest)"
    by (auto simp: labels_def)
  then show ?thesis
    by (simp add: drop_column_def drop_column_other)
qed

lemma loop_Cons: "loop body (x # xs) df = loop body xs (apply_effect df (body df x))"
  by (simp add: loop_def)

lemma loop_Nil: "loop body [] df = df"
  by (simp add: loop_def)

lemma loop_columns:
  assumes step: "\<And>pre x rest. distinct (labels (pre @ x # rest)) \<Longrightarrow> I (pre @ x # rest) \<Longrightarrow>
      apply_effect (pre @ x # rest) (body (pre @ x # rest) (label x)) = pre @ g x @ rest
      \<and> I (pre @ g x @ rest) \<and> set (labels (g x)) \<subseteq> {label x} \<and> length (g x) \<le> 1"
    and "distinct (labels (pre @ xs))" and "I (pre @ xs)"
  shows "loop body (labels xs) (pre @ xs) = pre @ concat (map g xs)"
  using assms(2,3)
proof (induction xs arbitrary: pre)
  case Nil
  then show ?case by (simp add: loop_Nil labels_def)
next
  case (Cons x xs)
  from step [OF Cons.prems] have
    a: "apply_effect (pre @ x # xs) (body (pre @ x # xs) (label x)) = pre @ g x @ xs"
    and i: "I (pre @ g x @ xs)" and l: "set (labels (g x)) \<subseteq> {label x}" and n: "length (g x) \<le> 1"
    by simp_all
  from n have "distinct (labels (g x))"
    by (cases "g x") (simp_all add: labels_def)
  moreover from l have "set (labels (g x)) \<inter> set (labels pre) = {}"
    and "set (labels (g x)) \<inter> set (labels xs) = {}"
    using Cons.prems(1) by (auto simp: labels_def)
  ultimately have d: "distinct (labels ((pre @ g x) @ xs))"
    using Cons.prems(1) by (auto simp: labels_def)
  from Cons.IH [of "pre @ g x"] d i
  have "loop body (labels xs) ((pre @ g x) @ xs) = (pre @ g x) @ concat (map g xs)"
    by simp
  then show ?case
    by (simp add: labels_def loop_Cons a)
qed


lemma nrows_all:
  "list_all (\<lambda>col. length (cells col) = n) (pre @ x # rest) \<Longrightarrow> nrows (pre @ x # rest) = n"
  by (cases pre) (simp_all add: nrows_def)

lemma missing_step_auto:
  assumes d: "distinct (labels (pre @ x # rest))"
    and i: "list_all (\<lambda>col. length (cells col) = n) (pre @ x # rest)"
  shows "apply_effect (pre @ x # rest) (missing_step ''auto'' (pre @ x # rest) (label x))
         = pre @ auto_policy n x @ rest"
proof -
  from d have g: "getcol (pre @ x # rest) (label x) = Some x"
    by (intro getcol_mid) (auto simp: labels_def)
  have f: "setcol (pre @ x # rest) (fillna v x) = pre @ fillna v x # rest" for v
    using d by (intro setcol_mid) (simp_all add: fillna_def)
  show ?thesis
    by (simp add: missing_step_def g nrows_all [OF i] auto_policy_def apply_effect_def f
        drop_column_mid [OF d] split: list.split)
qed

lemma auto_policy_shape:
  "list_all (\<lambda>col. length (cells col) = n) (auto_policy n x) \<or> \<not> length (cells x) = n"
  by (simp add: auto_policy_def fillna_def)

lemma auto_policy_labels: "set (labels (auto_policy n x)) \<subseteq> {label x} \<and> length (auto_policy n x) \<le> 1"
  by (simp add: auto_policy_def fillna_def labels_def)

lemma handle_missing_values_auto:
  assumes "wf_table df"
  shows "handle_missing_values df ''auto'' = concat (map (auto_policy (nrows df)) df)"
proof -
  let ?n = "nrows df"
  let ?I = "list_all (\<lambda>col. length (cells col) = ?n)"
  have "loop (missing_step ''auto'') (labels df) ([] @ df) = [] @ concat (map (auto_policy ?n) df)"
  proof (rule loop_columns [where I = ?I])
    fix pre x rest
    assume d: "distinct (labels (pre @ x # rest))" and i: "?I (pre @ x # rest)"
    from i auto_policy_shape [of ?n x] have "?I (pre @ auto_policy ?n x @ rest)"
      by simp
    with missing_step_auto [OF d i] auto_policy_labels [of ?n x]
    show "apply_effect (pre @ x # rest) (missing_step ''auto'' (pre @ x # rest) (label x))
            = pre @ auto_policy ?n x @ rest
          \<and> ?I (pre @ auto_policy ?n x @ rest)
          \<and> set (labels (auto_policy ?n x)) \<subseteq> {label x} \<and> length (auto_policy ?n x) \<le> 1"
      by simp
  next
    from assms show "distinct (labels ([] @ df))" by (simp add: wf_table_def)
  next
    from assms show "?I ([] @ df)" by (simp add: wf_table_def)
  qed
  then show ?thesis by (simp add: handle_missing_values_def)
qed

lemma convert_step_column:
  assumes d: "distinct (labels (pre @ x # rest))"
  shows "apply_effect (pre @ x # rest) (convert_step tn td (pre @ x # rest) (label x))
         = pre @ [convert_column tn td x] @ rest"
proof -
  from d have g: "getcol (pre @ x # rest) (label x) = Some x"
    by (intro getcol_mid) (auto simp: labels_def)
  have f: "setcol (pre @ x # rest) (x\<lparr>dtype := t, cells := cs\<rparr>) = pre @ x\<lparr>dtype := t, cells := cs\<rparr> # rest"
    for t cs
    using d by (intro setcol_mid) simp_all
  show ?thesis
    by (simp add: convert_step_def g convert_column_def apply_effect_def f Let_def
        split: option.split)
qed

lemma convert_column_label: "label (convert_column tn td x) = label x"
  by (simp add: convert_column_def split: option.split)

lemma convert_data_types_map:
  assumes "distinct (labels df)"
  shows "convert_data_types tn td df = map (convert_column tn td) df"
proof -
  have "loop (convert_step tn td) (labels df) ([] @ df)
        = [] @ concat (map (\<lambda>x. [convert_column tn td x]) df)"
  proof (rule loop_columns [where I = "\<lambda>t. True"])
    fix pre x rest
    assume "distinct (labels (pre @ x # rest))"
    from convert_step_column [OF this, of tn td]
    show "apply_effect (pre @ x # rest) (convert_step tn td (pre @ x # rest) (label x))
            = pre @ [convert_column tn td x] @ rest
          \<and> True \<and> set (labels [convert_column tn td x]) \<subseteq> {label x}
          \<and> length [convert_column tn td x] \<le> 1"
      by (simp add: labels_def convert_column_label)
  qed (use assms in simp_all)
  then show ?thesis by (simp add: convert_data_types_def)
qed

subsection \<open>Promotion of text columns to numbers\<close>

lemma label_inj:
  "distinct (labels df) \<Longrightarrow> x \<in> set df \<Longrightarrow> y \<in> set df \<Longrightarrow> label x = label y \<Longrightarrow> x = y"
  by (auto simp: labels_def distinct_map inj_on_def)

lemma getcol_none: "l \<notin> set (labels xs) \<Longrightarrow> getcol xs l = None"
  by (induction xs) (auto simp: getcol_def labels_def)

lemma getcol_append:
  "getcol (xs @ ys) l = (case getcol xs l of None \<Rightarrow> getcol ys l | Some c \<Rightarrow> Some c)"
  by (induction xs) (simp_all add: getcol_def)

lemma getcol_concat:
  assumes "distinct (labels df)" and "col \<in> set df"
    and g: "\<And>x. set (labels (g x)) \<subseteq> {label x}"
    and c: "g col = [c']" and l: "label c' = label col"
  shows "getcol (concat (map g df)) (label col) = Some c'"
  using assms(1,2)
proof (induction df)
  case Nil
  then show ?case by simp
next
  case (Cons x df)
  show ?case
  proof (cases "x = col")
    case True
    with c l show ?thesis
      by (simp add: getcol_append) (simp add: getcol_def)
  next
    case False
    with Cons.prems have m: "col \<in> set df" and "label x \<noteq> label col"
      by (auto simp: labels_def)
    with g [of x] have "label col \<notin> set (labels (g x))" by auto
    then have "getcol (g x) (label col) = None" by (rule getcol_none)
    moreover from Cons.prems have "distinct (labels df)" by (simp add: labels_def)
    ultimately show ?thesis
      using Cons.IH m by (simp add: getcol_append)
  qed
qed

text \<open>
  C1 (as amended). A text column that is not taken for a date column (or whose date
  parsing raises) is promoted to a numeric column exactly when strictly more than 80% of
  all its entries, the missing ones counted in, read as numbers once \<open>,\<close>, \<open>$\<close> and \<open>%\<close>
  are stripped; promoted, it holds the numbers read and NaN elsewhere; not promoted, it
  is left as it was.
\<close>

theorem numeric_promotion:
  assumes "distinct (labels df)" and "col \<in> set df" and "dtype col = Object"
    and "is_date_column col \<longrightarrow> to_datetime (cells col) = None"
  shows "\<exists>col'. getcol (convert_data_types to_numeric to_datetime df) (label col) = Some col'
          \<and> (is_numeric col'
               \<longleftrightarrow> 5 * notna_count (map (numeric_cell to_numeric) (cells col))
                     > 4 * length (cells col))
          \<and> (is_numeric col' \<longrightarrow> cells col' = map (numeric_cell to_numeric) (cells col))
          \<and> (\<not> is_numeric col' \<longrightarrow> col' = col)"
proof -
  let ?f = "convert_column to_numeric to_datetime"
  have "convert_data_types to_numeric to_datetime df = concat (map (\<lambda>x. [?f x]) df)"
    using assms(1) by (simp add: convert_data_types_map)
  moreover have "getcol (concat (map (\<lambda>x. [?f x]) df)) (label col) = Some (?f col)"
    using assms(1,2) by (rule getcol_concat) (simp_all add: labels_def convert_column_label)
  ultimately have "getcol (convert_data_types to_numeric to_datetime df) (label col) = Some (?f col)"
    by simp
  moreover from assms(3,4) have
    "?f col = (if 5 * notna_count (map (numeric_cell to_numeric) (cells col)) > 4 * length (cells col)
               then col\<lparr>dtype := Float64, cells := map (numeric_cell to_numeric) (cells col)\<rparr>
               else col)"
    by (auto simp: convert_column_def)
  ultimately show ?thesis
    using assms(3) by (simp add: is_numeric_def)
qed

theorem numeric_promotion_witness:
  "distinct (labels price_table)
   \<and> \<not> is_date_column
        \<lparr>label = ''price'', dtype = Object,
         cells = [Str ''$1,200'', Str ''35%'', Str ''7'', Str ''8'', Str ''9'', Str ''n/a'']\<rparr>
   \<and> (\<exists>col'. getcol (convert_data_types parse_digits no_dates price_table) ''price'' = Some col'
         \<and> is_numeric col'
         \<and> cells col' = [Num 1200, Num 35, Num 7, Num 8, Num 9, NA])"
proof -
  let ?c = "\<lparr>label = ''price'', dtype = Object,
         cells = [Str ''$1,200'', Str ''35%'', Str ''7'', Str ''8'', Str ''9'', Str ''n/a'']\<rparr>"
  have d: "distinct (labels price_table)" and m: "?c \<in> set price_table"
    by (simp_all add: price_table_def labels_def)
  have n: "\<not> is_date_column ?c"
    by (simp add: is_date_column_def date_patterns_def)
  have e: "map (numeric_cell parse_digits) (cells ?c) = [Num 1200, Num 35, Num 7, Num 8, Num 9, NA]"
    by (simp add: strip_formatting_def parse_digits_def is_digit_def digit_value_def)
  from numeric_promotion [of price_table ?c no_dates parse_digits, OF d m] n
  obtain col' where "getcol (convert_data_types parse_digits no_dates price_table) (label ?c) = Some col'"
    and "is_numeric col' \<longleftrightarrow> 5 * notna_count (map (numeric_cell parse_digits) (cells ?c)) > 4 * length (cells ?c)"
    and "is_numeric col' \<longrightarrow> cells col' = map (numeric_cell parse_digits) (cells ?c)"
    by auto
  then have "getcol (convert_data_types parse_digits no_dates price_table) ''price'' = Some col'
         \<and> is_numeric col' \<and> cells col' = [Num 1200, Num 35, Num 7, Num 8, Num 9, NA]"
    unfolding e by (simp add: notna_count_def)
  with d n show ?thesis by blast
qed

theorem eighty_percent_counterexample:
  "notna_count (map (numeric_cell parse_digits) [Str ''1'', Str ''2'', Str ''3'', Str ''4'', Str ''x'']) = 4
   \<and> notna_count (map (numeric_cell parse_digits) [Str ''1'', Str ''2'', Str ''3'', Str ''4'', NA]) = 4
   \<and> convert_data_types parse_digits no_dates amount_table = amount_table"
  by (simp add: convert_data_types_def loop_def labels_def amount_table_def convert_step_def getcol_def
     is_date_column_def date_patterns_def no_dates_def notna_count_def strip_formatting_def
     parse_digits_def is_digit_def digit_value_def apply_effect_def setcol_def)

subsection \<open>The auto policy for missing values\<close>

lemma texts_Str: "Str s \<in> set cs \<Longrightarrow> s \<in> set (texts cs)"
  by (induction cs rule: texts.induct) auto

lemma most_frequent_exists:
  assumes "ts \<noteq> []"
  shows "\<exists>x\<in>set ts. most_frequent ts x"
proof -
  let ?S = "count_list ts ` set ts"
  from assms have "finite ?S" and "?S \<noteq> {}" by simp_all
  then have "Max ?S \<in> ?S" by (rule Max_in)
  then obtain x where x: "x \<in> set ts" and m: "count_list ts x = Max ?S" by auto
  have "count_list ts y \<le> count_list ts x" if "y \<in> set ts" for y
    using that m by (simp add: Max_ge)
  with x show ?thesis
    by (auto simp: most_frequent_def list_all_iff)
qed

lemma set_mode: "set (mode cs) = {x \<in> set (texts cs). most_frequent (texts cs) x}"
  by (auto simp: mode_def)

lemma mode_head:
  assumes "texts cs \<noteq> []"
  shows "\<exists>m ms. mode cs = m # ms \<and> m \<in> set (texts cs) \<and> most_frequent (texts cs) m"
proof -
  from most_frequent_exists [OF assms] have "set (mode cs) \<noteq> {}"
    by (auto simp: set_mode)
  then obtain m ms where e: "mode cs = m # ms" by (cases "mode cs") auto
  then have "m \<in> set (mode cs)" by simp
  then have "m \<in> set (texts cs) \<and> most_frequent (texts cs) m" by (simp add: set_mode)
  with e show ?thesis by blast
qed

lemma categorical_cell:
  "cell_ok d v \<Longrightarrow> v \<noteq> NA \<Longrightarrow> d = Object \<or> d = Category \<Longrightarrow> \<exists>s. v = Str s"
  by (cases v) auto

lemma present_text:
  assumes "list_all (cell_ok (dtype col)) (cells col)" and "is_categorical col"
    and "null_count col < length (cells col)"
  shows "texts (cells col) \<noteq> []"
proof -
  have "\<exists>c\<in>set (cells col). c \<noteq> NA"
  proof (rule ccontr)
    assume "\<not> (\<exists>c\<in>set (cells col). c \<noteq> NA)"
    then have "filter (\<lambda>c. c = NA) (cells col) = cells col" by (simp add: filter_id_conv)
    with assms(3) show False by (simp add: null_count_def)
  qed
  then obtain v where v: "v \<in> set (cells col)" and "v \<noteq> NA" by auto
  moreover from assms(1) v have "cell_ok (dtype col) v" by (simp add: list_all_iff)
  ultimately obtain s where "v = Str s"
    using assms(2) categorical_cell [of "dtype col" v] by (auto simp: is_categorical_def)
  with v have "s \<in> set (texts (cells col))" by (auto intro: texts_Str)
  then show ?thesis by auto
qed

text \<open>
  C5. Under the auto policy the result is, column by column and in order, what the
  policy makes of each column of the well-formed input table: a column of which more
  than half is missing is absent from the output; a text column with some, but at most
  half, of its entries missing is filled with one of its most frequent values; any
  other such column is filled with its median. Columns with nothing missing are kept
  as they are.
\<close>

theorem auto_missing_value_policy:
  assumes "wf_table df"
  shows "handle_missing_values df ''auto'' = concat (map (auto_policy (nrows df)) df)
       \<and> (\<forall>col\<in>set df. 2 * null_count col > nrows df \<longrightarrow>
            label col \<notin> set (labels (handle_missing_values df ''auto'')))
       \<and> (\<forall>col\<in>set df. 0 < null_count col \<and> 2 * null_count col \<le> nrows df \<and> is_categorical col \<longrightarrow>
            (\<exists>m. m \<in> set (texts (cells col)) \<and> most_frequent (texts (cells col)) m
                \<and> getcol (handle_missing_values df ''auto'') (label col) = Some (fillna (Str m) col)))
       \<and> (\<forall>col\<in>set df. 0 < null_count col \<and> 2 * null_count col \<le> nrows df \<and> \<not> is_categorical col \<longrightarrow>
            getcol (handle_missing_values df ''auto'') (label col) = Some (fillna (median col) col))"
proof -
  let ?n = "nrows df"
  let ?r = "handle_missing_values df ''auto''"
  have eq: "?r = concat (map (auto_policy ?n) df)"
    using assms by (rule handle_missing_values_auto)
  from assms have d: "distinct (labels df)" by (simp add: wf_table_def)
  have lab: "set (labels (auto_policy ?n x)) \<subseteq> {label x}" for x
    using auto_policy_labels [of ?n x] by simp
  have dropped: "label col \<notin> set (labels ?r)" if c: "col \<in> set df" and h: "2 * null_count col > ?n" for col
  proof
    assume "label col \<in> set (labels ?r)"
    then obtain x c' where x: "x \<in> set df" and c': "c' \<in> set (auto_policy ?n x)"
      and l: "label c' = label col"
      unfolding eq by (auto simp: labels_def)
    from c' lab [of x] have "label c' = label x" by (auto simp: labels_def)
    with l label_inj [OF d x c] have "x = col" by simp
    with c' h show False by (simp add: auto_policy_def)
  qed
  have textual: "\<exists>m. m \<in> set (texts (cells col)) \<and> most_frequent (texts (cells col)) m
                \<and> getcol ?r (label col) = Some (fillna (Str m) col)"
    if c: "col \<in> set df" and h: "0 < null_count col" "2 * null_count col \<le> ?n" "is_categorical col" for col
  proof -
    from assms c have len: "length (cells col) = ?n" and ok: "list_all (cell_ok (dtype col)) (cells col)"
      by (simp_all add: wf_table_def list_all_iff)
    from h len have "null_count col < length (cells col)" by simp
    from mode_head [OF present_text [OF ok h(3) this]]
    obtain m ms where m: "mode (cells col) = m # ms" "m \<in> set (texts (cells col))"
      "most_frequent (texts (cells col)) m" by blast
    with h have "auto_policy ?n col = [fillna (Str m) col]"
      by (simp add: auto_policy_def)
    with d c lab have "getcol (concat (map (auto_policy ?n) df)) (label col) = Some (fillna (Str m) col)"
      by (rule getcol_concat) (simp add: fillna_def)
    with m show ?thesis unfolding eq by blast
  qed
  have number: "getcol ?r (label col) = Some (fillna (median col) col)"
    if c: "col \<in> set df" and h: "0 < null_count col" "2 * null_count col \<le> ?n" "\<not> is_categorical col" for col
  proof -
    from h have "auto_policy ?n col = [fillna (median col) col]"
      by (simp add: auto_policy_def)
    with d c lab have "getcol (concat (map (auto_policy ?n) df)) (label col) = Some (fillna (median col) col)"
      by (rule getcol_concat) (simp add: fillna_def)
    then show ?thesis unfolding eq by simp
  qed
  from eq dropped textual number show ?thesis by blast
qed

theorem auto_missing_value_policy_witness:
  "wf_table mixed_table
   \<and> handle_missing_values mixed_table ''auto''
     = concat (map (auto_policy (nrows mixed_table)) mixed_table)
   \<and> handle_missing_values mixed_table ''auto''
     = [\<lparr>label = ''city'', dtype = Object,
         cells = [Str ''Pune'', Str ''Pune'', Str ''Agra'', Str ''Pune'']\<rparr>,
        \<lparr>label = ''age'', dtype = Float64, cells = [Num 30, Num 10, Num 20, Num 20]\<rparr>]"
proof -
  have w: "wf_table mixed_table"
    by (simp add: wf_table_def mixed_table_def labels_def nrows_def)
  have "concat (map (auto_policy (nrows mixed_table)) mixed_table)
     = [\<lparr>label = ''city'', dtype = Object,
         cells = [Str ''Pune'', Str ''Pune'', Str ''Agra'', Str ''Pune'']\<rparr>,
        \<lparr>label = ''age'', dtype = Float64, cells = [Num 30, Num 10, Num 20, Num 20]\<rparr>]"
    by (simp add: mixed_table_def auto_policy_def null_count_def nrows_def is_categorical_def
        mode_def most_frequent_def median_def fillna_def)
  with auto_missing_value_policy [OF w] w show ?thesis by simp
qed

subsection \<open>Tables that a pass of the outlier removal leaves fixed\<close>





lemma nrows_member: "list_all (\<lambda>col. length (cells col) = n) df \<Longrightarrow> col \<in> set df \<Longrightarrow> nrows df = n"
  by (cases df) (auto simp: nrows_def)



subsection \<open>Cleaning works on a copy\<close>

lemma content_alloc: "content (alloc h df) = df"
  by (simp add: content_def alloc_def)

lemma keeps_alloc: "take (length h0) h = h0 \<Longrightarrow> keeps h0 (alloc h df)"
proof -
  assume t: "take (length h0) h = h0"
  then have "length (take (length h0) h) = length h0" by simp
  then have "length h0 \<le> length h" by simp
  with t show ?thesis by (simp add: keeps_def alloc_def)
qed

lemma keeps_copy:
  "take (length h0) h = h0 \<Longrightarrow> keeps h0 (copy h p) \<and> content (copy h p) = h ! p"
  by (simp add: copy_def keeps_alloc content_alloc)

lemma keeps_exec:
  assumes "keeps h0 hp"
  shows "keeps h0 (exec hp e) \<and> content (exec hp e) = apply_effect (content hp) e"
proof (cases hp)
  case (Pair h p)
  with assms have k: "take (length h0) h = h0" "length h0 \<le> p" "p < length h"
    by (simp_all add: keeps_def)
  show ?thesis
  proof (cases e)
    case NoChange
    with Pair assms show ?thesis by (simp add: apply_effect_def)
  next
    case (SetItem s)
    with Pair k show ?thesis
      by (simp add: keeps_def content_def apply_effect_def)
  next
    case (Rebind df)
    with Pair k show ?thesis
      by (simp add: keeps_alloc content_alloc apply_effect_def)
  qed
qed

lemma keeps_run_loop:
  "keeps h0 hp \<Longrightarrow>
   keeps h0 (run_loop body xs hp) \<and> content (run_loop body xs hp) = loop body xs (content hp)"
proof (induction xs arbitrary: hp)
  case Nil
  then show ?case by (simp add: run_loop_def loop_def)
next
  case (Cons x xs)
  from keeps_exec [OF Cons.prems, of "body (content hp) x"]
  have k: "keeps h0 (exec hp (body (content hp) x))"
    and c: "content (exec hp (body (content hp) x)) = apply_effect (content hp) (body (content hp) x)"
    by simp_all
  from Cons.IH [OF k] c show ?case
    by (simp add: run_loop_def loop_def)
qed

lemma keeps_handle_missing_values:
  assumes "take (length h0) h = h0"
  shows "keeps h0 (handle_missing_values_obj h p strategy)
       \<and> content (handle_missing_values_obj h p strategy) = handle_missing_values (h ! p) strategy"
  using keeps_run_loop [of h0 "copy h p" "missing_step strategy" "labels (h ! p)"]
    keeps_copy [OF assms, of p]
  by (simp add: handle_missing_values_obj_def handle_missing_values_def Let_def)

lemma keeps_convert_data_types:
  assumes "take (length h0) h = h0"
  shows "keeps h0 (convert_data_types_obj tn td h p)
       \<and> content (convert_data_types_obj tn td h p) = convert_data_types tn td (h ! p)"
  using keeps_run_loop [of h0 "copy h p" "convert_step tn td" "labels (h ! p)"]
    keeps_copy [OF assms, of p]
  by (simp add: convert_data_types_obj_def convert_data_types_def Let_def)

lemma keeps_remove_outliers:
  assumes "take (length h0) h = h0"
  shows "keeps h0 (remove_outliers_obj h p method)
       \<and> content (remove_outliers_obj h p method) = remove_outliers (h ! p) method"
  using keeps_run_loop [of h0 "copy h p" "outlier_step method" "labels (filter is_numeric (h ! p))"]
    keeps_copy [OF assms, of p]
  by (simp add: remove_outliers_obj_def remove_outliers_def Let_def)

lemma keeps_take: "keeps h0 hp \<Longrightarrow> take (length h0) (fst hp) = h0"
  by (simp add: keeps_def)

lemma clean_dataframe_keeps:
  "keeps h (clean_dataframe_obj tn td h df opts)
   \<and> content (clean_dataframe_obj tn td h df opts) = clean_dataframe tn td (h ! df) opts"
proof -
  define ms where "ms = (case opt_missing_strategy opts of Some s \<Rightarrow> s | None \<Rightarrow> ''auto'')"
  define s1 where "s1 = copy h df"
  define s2 where "s2 = alloc (fst s1) (dropna_rows (content s1))"
  define s3 where "s3 = alloc (fst s2) (dropna_columns (content s2))"
  define s4 where "s4 = handle_missing_values_obj (fst s3) (snd s3) ms"
  define s5 where "s5 = convert_data_types_obj tn td (fst s4) (snd s4)"
  define s6 where "s6 = (if (case opt_remove_duplicates opts of Some b \<Rightarrow> b | None \<Rightarrow> True)
                        then alloc (fst s5) (drop_duplicates (content s5)) else s5)"
  define s7 where "s7 = (if (case opt_remove_outliers opts of Some b \<Rightarrow> b | None \<Rightarrow> False)
                        then remove_outliers_obj (fst s6) (snd s6) ''iqr'' else s6)"
  have r: "clean_dataframe_obj tn td h df opts = s7"
    by (simp add: clean_dataframe_obj_def Let_def s7_def s6_def s5_def s4_def s3_def s2_def s1_def ms_def)
  have k1: "keeps h s1" and c1: "content s1 = h ! df"
    using keeps_copy [of h h df] by (simp_all add: s1_def)
  have k2: "keeps h s2" and c2: "content s2 = dropna_rows (h ! df)"
    using keeps_alloc [OF keeps_take [OF k1]] by (simp_all add: s2_def content_alloc c1)
  have k3: "keeps h s3" and c3: "content s3 = dropna_columns (dropna_rows (h ! df))"
    using keeps_alloc [OF keeps_take [OF k2]] by (simp_all add: s3_def content_alloc c2)
  have k4: "keeps h s4"
    and c4: "content s4 = handle_missing_values (dropna_columns (dropna_rows (h ! df))) ms"
    using keeps_handle_missing_values [OF keeps_take [OF k3], of "snd s3" ms] c3
    by (simp_all add: s4_def content_def)
  have k5: "keeps h s5" and c5: "content s5 = convert_data_types tn td (content s4)"
    using keeps_convert_data_types [OF keeps_take [OF k4], of tn td "snd s4"]
    by (simp_all add: s5_def content_def)
  have k6: "keeps h s6"
    and c6: "content s6 = (if (case opt_remove_duplicates opts of Some b \<Rightarrow> b | None \<Rightarrow> True)
                        then drop_duplicates (content s5) else content s5)"
    using keeps_alloc [OF keeps_take [OF k5]] k5 by (simp_all add: s6_def content_alloc)
  have k7: "keeps h s7"
    and c7: "content s7 = (if (case opt_remove_outliers opts of Some b \<Rightarrow> b | None \<Rightarrow> False)
                        then remove_outliers (content s6) ''iqr'' else content s6)"
    using keeps_remove_outliers [OF keeps_take [OF k6], of "snd s6" "''iqr''"] k6
    by (simp_all add: s7_def content_def)
  have "content s7 = clean_dataframe tn td (h ! df) opts"
    by (simp add: c7 c6 c5 c4 clean_dataframe_def Let_def ms_def)
  with k7 r show ?thesis by simp
qed

text \<open>
  C10. \<open>clean_dataframe\<close> leaves the frame it is given, and every other frame that
  existed, as it was: the frame returned is an object created during the call, and it
  holds the cleaned table.
\<close>

theorem clean_dataframe_leaves_input:
  assumes "df < length h"
  shows "fst (clean_dataframe_obj to_numeric to_datetime h df opts) ! df = h ! df
       \<and> take (length h) (fst (clean_dataframe_obj to_numeric to_datetime h df opts)) = h
       \<and> snd (clean_dataframe_obj to_numeric to_datetime h df opts) \<noteq> df
       \<and> length h \<le> snd (clean_dataframe_obj to_numeric to_datetime h df opts)
       \<and> snd (clean_dataframe_obj to_numeric to_datetime h df opts)
           < length (fst (clean_dataframe_obj to_numeric to_datetime h df opts))
       \<and> content (clean_dataframe_obj to_numeric to_datetime h df opts)
           = clean_dataframe to_numeric to_datetime (h ! df) opts"
proof -
  let ?r = "clean_dataframe_obj to_numeric to_datetime h df opts"
  from clean_dataframe_keeps [of h to_numeric to_datetime df opts]
  have k: "take (length h) (fst ?r) = h" "length h \<le> snd ?r" "snd ?r < length (fst ?r)"
    and c: "content ?r = clean_dataframe to_numeric to_datetime (h ! df) opts"
    by (simp_all add: keeps_def)
  from assms have "take (length h) (fst ?r) ! df = fst ?r ! df" by simp
  with k(1) have "fst ?r ! df = h ! df" by simp
  with k c assms show ?thesis by simp
qed

theorem clean_dataframe_leaves_input_witness:
  "(0::nat) < length [mixed_table]
   \<and> fst (clean_dataframe_obj parse_digits no_dates [mixed_table] 0 default_options) ! 0
       = mixed_table
   \<and> snd (clean_dataframe_obj parse_digits no_dates [mixed_table] 0 default_options) \<noteq> 0"
proof -
  have h: "(0::nat) < length [mixed_table]" by simp
  from clean_dataframe_leaves_input [OF h, of parse_digits no_dates default_options] h
  show ?thesis by simp
qed

subsection \<open>State kept by the processor instance\<close>






subsection \<open>Passes of the outlier removal on small tables\<close>

text \<open>
  Every pass computes the quartiles anew: on the table below a first pass removes 100
  and a second pass removes both 1s. A row with a missing entry in a numeric column is
  removed as well, since it fails the comparison.
\<close>

lemma first_pass:
  "remove_outliers skewed_table ''iqr'' =
     [\<lparr>label = ''v'', dtype = Float64,
       cells = [Num 0, Num 0, Num 0, Num 0, Num 0, Num 0, Num 0, Num 1, Num 1]\<rparr>]"
  by (simp add: remove_outliers_def loop_def labels_def skewed_table_def is_numeric_def
      outlier_step_def getcol_def lower_bound_def upper_bound_def quantile_def Let_def
      apply_effect_def take_rows_def keep_def)

lemma second_pass:
  "remove_outliers (remove_outliers skewed_table ''iqr'') ''iqr'' =
     [\<lparr>label = ''v'', dtype = Float64,
       cells = [Num 0, Num 0, Num 0, Num 0, Num 0, Num 0, Num 0]\<rparr>]"
  unfolding first_pass
  by (simp add: remove_outliers_def loop_def labels_def is_numeric_def
      outlier_step_def getcol_def lower_bound_def upper_bound_def quantile_def Let_def
      apply_effect_def take_rows_def keep_def)


subsection \<open>Outlier removal on a table without outliers\<close>














subsection \<open>Correlation\<close>


















end
